theory Spec2Isabelle
  imports Complex_Main
begin

section \<open>The transaction backend of \<^verbatim>\<open>src/backend/index.js\<close>\<close>

text \<open>
  The program is an Express application over one Mongoose model, \<^verbatim>\<open>Transaction\<close>.
  Its handlers read query parameters, build a month interval with \<^verbatim>\<open>Date\<close>, and
  send a filter or an aggregation pipeline to the store. The embedding below follows
  the handlers line by line; what the handlers call in the host (\<^verbatim>\<open>Date\<close>, Mongoose
  query casting, the aggregation stages, Express routing, axios) is modelled by the
  part of its behaviour that the handlers use.

  Conventions of the model:
  \<^item> a \<^verbatim>\<open>Date\<close> is its time value, the milliseconds since 1970-01-01T00:00Z, or
    \<^verbatim>\<open>Invalid Date\<close>; the local accessors \<^verbatim>\<open>getMonth\<close> and \<^verbatim>\<open>setMonth\<close> work
    in the local time zone of the host, which is a parameter of the model;
  \<^item> a price is the rational number that its double is; comparing prices is exact,
    adding them is not, and the sum the store returns is a parameter of the model;
  \<^item> what the host does beyond the source (its time zone, its reading of date texts
    outside the forms given below, its \<^verbatim>\<open>RegExp\<close> constructor, the way a month text
    travels in an address, the store's sum of doubles) is collected in a record
    \<open>host\<close> that every handler takes;
  \<^item> the query parameters \<^verbatim>\<open>page\<close> and \<^verbatim>\<open>perPage\<close> carry the decimal text of a
    natural number or are absent; \<^verbatim>\<open>month\<close> and \<^verbatim>\<open>search\<close> are texts or absent;
  \<^item> every field of a stored document is optional, as in \<^verbatim>\<open>transactionSchema\<close>,
    which marks no path as required.
\<close>

subsection \<open>Dates\<close>

datatype jsdate = Invalid_Date | Time int

text \<open>
  The host:
  \<^item> \<open>tza_of_utc\<close> and \<open>tza_of_local\<close> are ECMAScript's \<^verbatim>\<open>LocalTZA(t, true)\<close> and
    \<^verbatim>\<open>LocalTZA(t, false)\<close>, the offset of local time from UTC in milliseconds at a
    UTC instant and at a local time value;
  \<^item> \<open>parse_other\<close> is \<^verbatim>\<open>new Date(text)\<close> on the texts whose reading the language
    leaves to the engine and that are not covered by \<open>Date_parse\<close> below;
  \<^item> \<open>received_month\<close> gives, for a text written after \<^verbatim>\<open>month=\<close> at the end of an
    address, the text that \<^verbatim>\<open>${month}\<close> stands for in the handler that receives the
    request (the address is not encoded by the sender and is decoded by the
    receiver);
  \<^item> \<open>RegExp_new\<close> is \<^verbatim>\<open>new RegExp(pattern, flags)\<close>: \<open>None\<close> when the pattern does
    not compile and the constructor throws, else the compiled expression, given as
    the set of texts in which it finds a match;
  \<^item> \<open>double_sum\<close> is the store's \<^verbatim>\<open>$sum\<close> of a list of doubles, itself a double.
\<close>

record host =
  tza_of_utc :: "int \<Rightarrow> int"
  tza_of_local :: "int \<Rightarrow> int"
  parse_other :: "string \<Rightarrow> jsdate"
  received_month :: "string \<Rightarrow> string"
  RegExp_new :: "string \<Rightarrow> string \<Rightarrow> (string \<Rightarrow> bool) option"
  double_sum :: "rat list \<Rightarrow> rat"

definition LocalTime :: "host \<Rightarrow> int \<Rightarrow> int" where
  "LocalTime h t = t + tza_of_utc h t"

definition UTC_time :: "host \<Rightarrow> int \<Rightarrow> int" where
  "UTC_time h t = t - tza_of_local h t"

text \<open>A host whose local time is UTC all year.\<close>

definition utc_host :: "host \<Rightarrow> bool" where
  "utc_host h = ((\<forall>t. tza_of_utc h t = 0) \<and> (\<forall>t. tza_of_local h t = 0))"

definition msPerDay :: int where
  "msPerDay = 86400000"

text \<open>
  Day number (days since 1970-01-01) of a date of the proleptic Gregorian calendar,
  months counted from 1, and back. Both directions count in eras of 400 years.
\<close>

definition days_from_civil :: "int \<Rightarrow> int \<Rightarrow> int \<Rightarrow> int" where
  "days_from_civil y m d =
     (let y' = (if m \<le> 2 then y - 1 else y);
          era = y' div 400;
          yoe = y' - era * 400;
          mp = (if m > 2 then m - 3 else m + 9);
          doy = (153 * mp + 2) div 5 + d - 1;
          doe = yoe * 365 + yoe div 4 - yoe div 100 + doy
      in era * 146097 + doe - 719468)"

definition civil_from_days :: "int \<Rightarrow> int \<times> int \<times> int" where
  "civil_from_days z0 =
     (let z = z0 + 719468;
          era = z div 146097;
          doe = z - era * 146097;
          yoe = (doe - doe div 1460 + doe div 36524 - doe div 146096) div 365;
          doy = doe - (365 * yoe + yoe div 4 - yoe div 100);
          mp = (5 * doy + 2) div 153;
          d = doy - (153 * mp + 2) div 5 + 1;
          m = (if mp < 10 then mp + 3 else mp - 9);
          y = yoe + era * 400 + (if m \<le> 2 then 1 else 0)
      in (y, m, d))"

text \<open>The time value of midnight UTC on a calendar day.\<close>

definition utc_midnight :: "int \<Rightarrow> int \<Rightarrow> int \<Rightarrow> int" where
  "utc_midnight y m d = days_from_civil y m d * msPerDay"

text \<open>ECMAScript's abstract operations on time values.\<close>

definition Day :: "int \<Rightarrow> int" where
  "Day t = t div msPerDay"

definition TimeWithinDay :: "int \<Rightarrow> int" where
  "TimeWithinDay t = t mod msPerDay"

definition YearFromTime :: "int \<Rightarrow> int" where
  "YearFromTime t = fst (civil_from_days (Day t))"

definition MonthFromTime :: "int \<Rightarrow> int" where
  "MonthFromTime t = fst (snd (civil_from_days (Day t))) - 1"

definition DateFromTime :: "int \<Rightarrow> int" where
  "DateFromTime t = snd (snd (civil_from_days (Day t)))"

definition MakeDay :: "int \<Rightarrow> int \<Rightarrow> int \<Rightarrow> int" where
  "MakeDay year month date =
     (let ym = year + month div 12;
          mn = month mod 12
      in days_from_civil ym (mn + 1) 1 + date - 1)"

definition MakeDate :: "int \<Rightarrow> int \<Rightarrow> int" where
  "MakeDate day time = day * msPerDay + time"

text \<open>
  \<^verbatim>\<open>d.getMonth()\<close>: \<^verbatim>\<open>NaN\<close> (here \<open>None\<close>) on an invalid date, else the month of
  the local time, counted from 0. \<^verbatim>\<open>d.setMonth(m)\<close> works on the local time: it
  keeps the day of the month and the time of day, lets the month overflow into the
  year and a day the month does not have into the next month, and converts the
  result back to UTC; it leaves an invalid date invalid.
\<close>

definition getMonth :: "host \<Rightarrow> jsdate \<Rightarrow> int option" where
  "getMonth h d =
     (case d of Invalid_Date \<Rightarrow> None | Time t \<Rightarrow> Some (MonthFromTime (LocalTime h t)))"

definition with_month :: "int \<Rightarrow> int \<Rightarrow> int" where
  "with_month t mo = MakeDate (MakeDay (YearFromTime t) mo (DateFromTime t)) (TimeWithinDay t)"

definition setMonth :: "host \<Rightarrow> jsdate \<Rightarrow> int option \<Rightarrow> jsdate" where
  "setMonth h d m =
     (case d of
        Invalid_Date \<Rightarrow> Invalid_Date
      | Time t \<Rightarrow>
          (case m of
             None \<Rightarrow> Invalid_Date
           | Some mo \<Rightarrow> Time (UTC_time h (with_month (LocalTime h t) mo))))"

subsection \<open>Texts: decimal numerals and date strings\<close>

definition digit_char :: "nat \<Rightarrow> char" where
  "digit_char n = ''0123456789'' ! (n mod 10)"

fun decimal :: "nat \<Rightarrow> string" where
  "decimal n = (if n < 10 then [digit_char n] else decimal (n div 10) @ [digit_char (n mod 10)])"

declare decimal.simps [simp del]

definition digit_val :: "char \<Rightarrow> nat option" where
  "digit_val c = map_of (zip ''0123456789'' [0 ..< 10]) c"

text \<open>The value of a non-empty text of decimal digits, read left to right.\<close>

fun digits_value :: "nat \<Rightarrow> string \<Rightarrow> nat option" where
  "digits_value acc [] = Some acc"
| "digits_value acc (c # cs) =
     (case digit_val c of None \<Rightarrow> None | Some v \<Rightarrow> digits_value (10 * acc + v) cs)"

definition number_of_text :: "string \<Rightarrow> nat option" where
  "number_of_text s = (if s = [] then None else digits_value 0 s)"

text \<open>The fields of a text between its hyphens.\<close>

fun split_hyphen :: "string \<Rightarrow> string \<Rightarrow> string list" where
  "split_hyphen cur [] = [rev cur]"
| "split_hyphen cur (c # cs) =
     (if c = CHR ''-'' then rev cur # split_hyphen [] cs else split_hyphen (c # cur) cs)"

definition days_in_month :: "int \<Rightarrow> int \<Rightarrow> int" where
  "days_in_month y m = days_from_civil (y + m div 12) (m mod 12 + 1) 1 - days_from_civil y m 1"

text \<open>
  The numeric fields of a text \<^verbatim>\<open>YYYY-MM-DD\<close> or \<^verbatim>\<open>YYYY-M-DD\<close>: year, month, day,
  and whether the month has two digits. Any other text has no such fields.
\<close>

definition date_fields :: "string \<Rightarrow> (nat \<times> nat \<times> nat \<times> bool) option" where
  "date_fields s =
     (case split_hyphen [] s of
        [y, m, d] \<Rightarrow>
          (if length y = 4 \<and> (length m = 1 \<or> length m = 2) \<and> length d = 2
           then (case (number_of_text y, number_of_text m, number_of_text d) of
                   (Some yn, Some mn, Some dn) \<Rightarrow> Some (yn, mn, dn, length m = 2)
                 | _ \<Rightarrow> None)
           else None)
      | _ \<Rightarrow> None)"

definition legal_date :: "nat \<Rightarrow> nat \<Rightarrow> nat \<Rightarrow> bool" where
  "legal_date y m d = (1 \<le> m \<and> m \<le> 12 \<and> 1 \<le> d \<and> int d \<le> days_in_month (int y) (int m))"

text \<open>
  \<^verbatim>\<open>new Date(text)\<close>. A text \<^verbatim>\<open>YYYY-MM-DD\<close> is the date-only form of the ECMAScript
  date format and denotes midnight UTC. A text \<^verbatim>\<open>YYYY-M-DD\<close> is not of that format;
  Node's engine reads it as midnight of that day in local time. In both forms a
  month outside 1..12 or a day that the month does not have gives
  \<^verbatim>\<open>Invalid Date\<close>. Every other text is read by the host.
\<close>

definition Date_parse :: "host \<Rightarrow> string \<Rightarrow> jsdate" where
  "Date_parse h s =
     (case date_fields s of
        None \<Rightarrow> parse_other h s
      | Some (y, m, d, two_digits) \<Rightarrow>
          (if legal_date y m d
           then Time (if two_digits then utc_midnight (int y) (int m) (int d)
                      else UTC_time h (utc_midnight (int y) (int m) (int d)))
           else Invalid_Date))"

text \<open>
  The template literal \<^verbatim>\<open>`2023-${month}-01`\<close>: a missing parameter is
  \<^verbatim>\<open>undefined\<close> and is written as that word.
\<close>

definition interpolate :: "string option \<Rightarrow> string" where
  "interpolate p = (case p of None \<Rightarrow> ''undefined'' | Some s \<Rightarrow> s)"

definition date_text :: "string option \<Rightarrow> string" where
  "date_text month = ''2023-'' @ interpolate month @ ''-01''"

text \<open>
  The three lines every handler starts with:
  \<^verbatim>\<open>
  const startDate = new Date(`2023-${month}-01`);
  const endDate = new Date(startDate);
  endDate.setMonth(endDate.getMonth() + 1);
  \<close>
\<close>

definition month_interval :: "host \<Rightarrow> string option \<Rightarrow> jsdate \<times> jsdate" where
  "month_interval h month =
     (let startDate = Date_parse h (date_text month);
          endDate = setMonth h startDate (map_option (\<lambda>m. m + 1) (getMonth h startDate))
      in (startDate, endDate))"

subsection \<open>Documents and the store\<close>

text \<open>
  \<^verbatim>\<open>transactionSchema\<close> (lines 21-28). \<open>ident\<close> is the \<^verbatim>\<open>_id\<close> the store gives
  every document. A field that is absent or \<^verbatim>\<open>null\<close> is \<open>None\<close>.
\<close>

record transaction =
  ident :: nat
  title :: "string option"
  description :: "string option"
  price :: "rat option"
  dateOfSale :: "int option"
  sold :: "bool option"
  category :: "string option"

text \<open>
  The connection made at start-up may have failed (its \<^verbatim>\<open>catch\<close> only logs); then
  every operation on the model is rejected. Otherwise the collection is a list of
  documents in their natural order.
\<close>

datatype db = Down | Up "transaction list"

datatype error = CastError | StoreError | AxiosError

subsection \<open>Filters and Mongoose's query casting\<close>

text \<open>
  The conditions the handlers write, path by path:
  \<^verbatim>\<open>{ title: regex }\<close> (a \<^verbatim>\<open>RegExp\<close> object on a String path),
  \<^verbatim>\<open>{ price: { $regex: search } }\<close>,
  \<^verbatim>\<open>{ dateOfSale: { $gte: startDate, $lt: endDate } }\<close> and
  \<^verbatim>\<open>{ sold: false }\<close>. A compiled regular expression is the set of texts in which
  it finds a match.
\<close>

datatype string_path = Title | Description | Category

datatype atom =
    Regexp_is string_path "string \<Rightarrow> bool"
  | Price_regex string
  | DateOfSale_range jsdate jsdate
  | Sold_is bool

datatype clause = Cond atom | Or "atom list"

type_synonym conditions = "clause list"

text \<open>
  \<^verbatim>\<open>Model.find\<close> and \<^verbatim>\<open>Model.countDocuments\<close> cast their conditions against the
  schema before anything is sent to the store, the branches of \<^verbatim>\<open>$or\<close> included,
  and reject the query with a \<^verbatim>\<open>CastError\<close> when a value cannot be cast:
  \<^item> a String path takes a \<^verbatim>\<open>RegExp\<close> as it is;
  \<^item> a Number path has handlers for the comparison operators only, so \<^verbatim>\<open>$regex\<close> on
    \<^verbatim>\<open>price\<close> cannot be cast, whatever its operand;
  \<^item> a Date path takes a \<^verbatim>\<open>Date\<close> object unless it is \<^verbatim>\<open>Invalid Date\<close>;
  \<^item> a Boolean path takes a boolean.
\<close>

fun cast_atom :: "atom \<Rightarrow> bool" where
  "cast_atom (Regexp_is p r) = True"
| "cast_atom (Price_regex s) = False"
| "cast_atom (DateOfSale_range a b) = (a \<noteq> Invalid_Date \<and> b \<noteq> Invalid_Date)"
| "cast_atom (Sold_is b) = True"

fun cast_clause :: "clause \<Rightarrow> bool" where
  "cast_clause (Cond a) = cast_atom a"
| "cast_clause (Or as) = list_all cast_atom as"

definition cast_conditions :: "conditions \<Rightarrow> bool" where
  "cast_conditions cs = list_all cast_clause cs"

text \<open>
  What the store does with a condition. A date travels as its time value; the driver
  writes \<^verbatim>\<open>Invalid Date\<close> as time value 0. A range selects documents that have a
  date in it, a regular expression selects documents whose field is a text it
  matches (so never a number), and \<^verbatim>\<open>{ sold: false }\<close> selects documents whose
  flag is \<^verbatim>\<open>false\<close>, not those without a flag.
\<close>

definition bson_date :: "jsdate \<Rightarrow> int" where
  "bson_date d = (case d of Invalid_Date \<Rightarrow> 0 | Time t \<Rightarrow> t)"

definition date_between :: "jsdate \<Rightarrow> jsdate \<Rightarrow> transaction \<Rightarrow> bool" where
  "date_between a b doc =
     (case dateOfSale doc of
        None \<Rightarrow> False
      | Some t \<Rightarrow> bson_date a \<le> t \<and> t < bson_date b)"

fun field_text :: "string_path \<Rightarrow> transaction \<Rightarrow> string option" where
  "field_text Title doc = title doc"
| "field_text Description doc = description doc"
| "field_text Category doc = category doc"

fun matches_atom :: "atom \<Rightarrow> transaction \<Rightarrow> bool" where
  "matches_atom (Regexp_is p r) doc = (case field_text p doc of None \<Rightarrow> False | Some s \<Rightarrow> r s)"
| "matches_atom (Price_regex s) doc = False"
| "matches_atom (DateOfSale_range a b) doc = date_between a b doc"
| "matches_atom (Sold_is b) doc = (sold doc = Some b)"

fun matches_clause :: "clause \<Rightarrow> transaction \<Rightarrow> bool" where
  "matches_clause (Cond a) doc = matches_atom a doc"
| "matches_clause (Or as) doc = list_ex (\<lambda>a. matches_atom a doc) as"

definition matches :: "conditions \<Rightarrow> transaction \<Rightarrow> bool" where
  "matches cs doc = list_all (\<lambda>c. matches_clause c doc) cs"

text \<open>
  \<^verbatim>\<open>Transaction.find(conditions).skip(s).limit(n)\<close>, awaited. Casting comes first.
  The store refuses a negative skip; a limit of 0 is no limit.
\<close>

definition apply_limit :: "nat \<Rightarrow> 'a list \<Rightarrow> 'a list" where
  "apply_limit n xs = (if n = 0 then xs else take n xs)"

definition Transaction_find :: "db \<Rightarrow> conditions \<Rightarrow> int \<Rightarrow> nat \<Rightarrow> error + transaction list" where
  "Transaction_find d cs skip limit =
     (if \<not> cast_conditions cs then Inl CastError
      else case d of
        Down \<Rightarrow> Inl StoreError
      | Up docs \<Rightarrow>
          if skip < 0 then Inl StoreError
          else Inr (apply_limit limit (drop (nat skip) (filter (matches cs) docs))))"

definition Transaction_countDocuments :: "db \<Rightarrow> conditions \<Rightarrow> error + nat" where
  "Transaction_countDocuments d cs =
     (if \<not> cast_conditions cs then Inl CastError
      else case d of
        Down \<Rightarrow> Inl StoreError
      | Up docs \<Rightarrow> Inr (length (filter (matches cs) docs)))"

subsection \<open>Aggregation pipelines\<close>

text \<open>
  \<^verbatim>\<open>Transaction.aggregate([{ $match: { dateOfSale: { $gte, $lt } } }, stage])\<close>.
  A pipeline is sent as it is written: Mongoose casts no stage of it.
\<close>

definition match_stage :: "jsdate \<Rightarrow> jsdate \<Rightarrow> transaction list \<Rightarrow> transaction list" where
  "match_stage a b docs = filter (date_between a b) docs"

definition Transaction_aggregate ::
  "db \<Rightarrow> jsdate \<Rightarrow> jsdate \<Rightarrow> (transaction list \<Rightarrow> 'a) \<Rightarrow> error + 'a" where
  "Transaction_aggregate d a b stage =
     (case d of Down \<Rightarrow> Inl StoreError | Up docs \<Rightarrow> Inr (stage (match_stage a b docs)))"

text \<open>
  \<^verbatim>\<open>{ $group: { _id: null, totalAmount: { $sum: "$price" },
     soldItems: { $sum: { $cond: ["$sold", 1, 0] } } } }\<close>:
  no group when no document arrives, else one group. \<^verbatim>\<open>$sum\<close> adds the prices of
  the documents that have one, in double precision; \<^verbatim>\<open>$cond\<close> takes its first
  branch when the flag is \<^verbatim>\<open>true\<close>, and the sum of these integers is exact.
\<close>

definition sold_one :: "transaction \<Rightarrow> nat" where
  "sold_one doc = (if sold doc = Some True then 1 else 0)"

definition group_totals :: "host \<Rightarrow> transaction list \<Rightarrow> (rat \<times> nat) list" where
  "group_totals h docs =
     (if docs = [] then []
      else [(double_sum h (List.map_filter price docs), sum_list (map sold_one docs))])"

text \<open>
  \<^verbatim>\<open>{ $bucket: { groupBy: "$price",
     boundaries: [0, 100, 200, 300, 400, 500, 600, 700, 800, 900, Infinity],
     default: "901-above", output: { count: { $sum: 1 } } } }\<close>.
  A bucket runs from one boundary (included) to the next (excluded) and is named by
  its lower boundary; the last one runs from 900 to \<^verbatim>\<open>Infinity\<close>. A document whose
  price is in no bucket, or is no number, is counted under the default name. Only
  buckets that received a document are returned, the numbered ones in ascending
  order before the default one.
\<close>

definition boundaries :: "rat list" where
  "boundaries = [0, 100, 200, 300, 400, 500, 600, 700, 800, 900]"

fun bucket_lower :: "rat list \<Rightarrow> rat \<Rightarrow> rat option" where
  "bucket_lower [] p = None"
| "bucket_lower [lo] p = (if lo \<le> p then Some lo else None)"
| "bucket_lower (lo # hi # bs) p =
     (if lo \<le> p \<and> p < hi then Some lo else bucket_lower (hi # bs) p)"

datatype bucket_id = Lower rat | Label string

definition bucket_of :: "transaction \<Rightarrow> bucket_id" where
  "bucket_of doc =
     (case price doc of
        None \<Rightarrow> Label ''901-above''
      | Some p \<Rightarrow>
          (case bucket_lower boundaries p of
             None \<Rightarrow> Label ''901-above''
           | Some lo \<Rightarrow> Lower lo))"

definition bucket_count :: "transaction list \<Rightarrow> bucket_id \<Rightarrow> nat" where
  "bucket_count docs k = length (filter (\<lambda>doc. bucket_of doc = k) docs)"

definition bucket_keys :: "bucket_id list" where
  "bucket_keys = map Lower boundaries @ [Label ''901-above'']"

definition bucket_stage :: "transaction list \<Rightarrow> (bucket_id \<times> nat) list" where
  "bucket_stage docs =
     filter (\<lambda>kc. 0 < snd kc) (map (\<lambda>k. (k, bucket_count docs k)) bucket_keys)"

text \<open>
  \<^verbatim>\<open>{ $group: { _id: "$category", count: { $sum: 1 } } }\<close>: one group for every
  value of the field among the documents that arrive, \<^verbatim>\<open>null\<close> (\<open>None\<close>) for those
  without one. The store fixes no order of the groups.
\<close>

definition category_stage :: "transaction list \<Rightarrow> (string option \<times> nat) list" where
  "category_stage docs =
     map (\<lambda>k. (k, length (filter (\<lambda>doc. category doc = k) docs))) (remdups (map category docs))"

subsection \<open>Requests and responses\<close>

record request =
  page :: "nat option"
  perPage :: "nat option"
  search :: "string option"
  month :: "string option"

datatype payload =
    Text string
  | Error_json string
  | Transactions "transaction list"
  | Statistics rat nat nat
  | Buckets "(bucket_id \<times> nat) list"
  | Categories "(string option \<times> nat) list"
  | Combined payload payload payload

record response =
  status :: nat
  body :: payload

text \<open>\<^verbatim>\<open>res.json(v)\<close> answers 200; \<^verbatim>\<open>res.status(c).send(text)\<close> answers \<open>c\<close>.\<close>

definition res_json :: "payload \<Rightarrow> response" where
  "res_json v = \<lparr>status = 200, body = v\<rparr>"

definition res_send :: "nat \<Rightarrow> string \<Rightarrow> response" where
  "res_send c t = \<lparr>status = c, body = Text t\<rparr>"

subsection \<open>The handlers\<close>

definition or_default :: "'a option \<Rightarrow> 'a \<Rightarrow> 'a" where
  "or_default p v = (case p of None \<Rightarrow> v | Some x \<Rightarrow> x)"

definition transactions_conditions ::
  "(string \<Rightarrow> bool) \<Rightarrow> string \<Rightarrow> jsdate \<Rightarrow> jsdate \<Rightarrow> conditions" where
  "transactions_conditions regex search_text startDate endDate =
     [Cond (DateOfSale_range startDate endDate),
      Or [Regexp_is Title regex, Regexp_is Description regex, Price_regex search_text]]"

text \<open>Lines 47-68, the handler registered first for \<^verbatim>\<open>/transactions\<close>.\<close>

definition transactions :: "host \<Rightarrow> db \<Rightarrow> request \<Rightarrow> response" where
  "transactions h d req =
     (let page_n = or_default (page req) 1;
          perPage_n = or_default (perPage req) 10;
          search_text = or_default (search req) [];
          (startDate, endDate) = month_interval h (month req)
      in case RegExp_new h search_text ''i'' of
           None \<Rightarrow> res_send 500 ''Error fetching transactions''
         | Some regex \<Rightarrow>
             (case Transaction_find d
                     (transactions_conditions regex search_text startDate endDate)
                     ((int page_n - 1) * int perPage_n) perPage_n of
                Inl e \<Rightarrow> res_send 500 ''Error fetching transactions''
              | Inr found \<Rightarrow> res_json (Transactions found)))"

text \<open>
  Lines 163-190, the handler registered last for the same path. Its guard is
  \<^verbatim>\<open>!month || month < 1 || month > 12\<close>: a missing or empty text is falsy, and the
  comparisons convert the text to a number. The conversion is modelled on texts of
  decimal digits; any other text counts as \<^verbatim>\<open>NaN\<close>, which fails both comparisons.
\<close>

definition month_rejected :: "string option \<Rightarrow> bool" where
  "month_rejected m =
     (case m of
        None \<Rightarrow> True
      | Some s \<Rightarrow>
          s = [] \<or> (case number_of_text s of None \<Rightarrow> False | Some n \<Rightarrow> n < 1 \<or> n > 12))"

definition transactions_validated :: "host \<Rightarrow> db \<Rightarrow> request \<Rightarrow> response" where
  "transactions_validated h d req =
     (if month_rejected (month req)
      then \<lparr>status = 400, body = Error_json ''Invalid month parameter''\<rparr>
      else transactions h d req)"

text \<open>Lines 71-94.\<close>

definition statistics :: "host \<Rightarrow> db \<Rightarrow> request \<Rightarrow> response" where
  "statistics h d req =
     (let (startDate, endDate) = month_interval h (month req)
      in case Transaction_aggregate d startDate endDate (group_totals h) of
           Inl e \<Rightarrow> res_send 500 ''Error fetching statistics''
         | Inr totalSales \<Rightarrow>
             (case Transaction_countDocuments d
                     [Cond (Sold_is False), Cond (DateOfSale_range startDate endDate)] of
                Inl e \<Rightarrow> res_send 500 ''Error fetching statistics''
              | Inr totalUnsold \<Rightarrow>
                  res_json (Statistics
                    (case totalSales of [] \<Rightarrow> 0 | g # gs \<Rightarrow> fst g)
                    (case totalSales of [] \<Rightarrow> 0 | g # gs \<Rightarrow> snd g)
                    totalUnsold)))"

text \<open>Lines 97-121.\<close>

definition bar_chart :: "host \<Rightarrow> db \<Rightarrow> request \<Rightarrow> response" where
  "bar_chart h d req =
     (let (startDate, endDate) = month_interval h (month req)
      in case Transaction_aggregate d startDate endDate bucket_stage of
           Inl e \<Rightarrow> res_send 500 ''Error fetching bar chart data''
         | Inr priceRanges \<Rightarrow> res_json (Buckets priceRanges))"

text \<open>Lines 124-141.\<close>

definition pie_chart :: "host \<Rightarrow> db \<Rightarrow> request \<Rightarrow> response" where
  "pie_chart h d req =
     (let (startDate, endDate) = month_interval h (month req)
      in case Transaction_aggregate d startDate endDate category_stage of
           Inl e \<Rightarrow> res_send 500 ''Error fetching pie chart data''
         | Inr categories \<Rightarrow> res_json (Categories categories))"

text \<open>
  Lines 144-162. \<^verbatim>\<open>axios.get\<close> resolves with the body of an answer whose status is
  2xx and rejects on any other. The three addresses end in \<^verbatim>\<open>month=${month}\<close> with
  the text written as it is, not encoded; the handlers of \<^verbatim>\<open>/statistics\<close>,
  \<^verbatim>\<open>/bar-chart\<close> and \<^verbatim>\<open>/pie-chart\<close> of this same server receive what the host makes
  of it, and no other parameter.
\<close>

definition axios_get :: "response \<Rightarrow> error + payload" where
  "axios_get r = (if 200 \<le> status r \<and> status r < 300 then Inr (body r) else Inl AxiosError)"

definition sub_request :: "host \<Rightarrow> request \<Rightarrow> request" where
  "sub_request h req =
     \<lparr>page = None, perPage = None, search = None,
      month = Some (received_month h (interpolate (month req)))\<rparr>"

definition combined_data :: "host \<Rightarrow> db \<Rightarrow> request \<Rightarrow> response" where
  "combined_data h d req =
     (case axios_get (statistics h d (sub_request h req)) of
        Inl e \<Rightarrow> res_send 500 ''Error fetching combined data''
      | Inr stats \<Rightarrow>
          (case axios_get (bar_chart h d (sub_request h req)) of
             Inl e \<Rightarrow> res_send 500 ''Error fetching combined data''
           | Inr barChart \<Rightarrow>
               (case axios_get (pie_chart h d (sub_request h req)) of
                  Inl e \<Rightarrow> res_send 500 ''Error fetching combined data''
                | Inr pieChart \<Rightarrow> res_json (Combined stats barChart pieChart))))"

subsection \<open>Routing\<close>

text \<open>
  The routes that answer queries, in the order of their \<^verbatim>\<open>app.get\<close> calls. Express
  runs the first handler registered for the path of a request; a later one runs only
  if an earlier one passes the request on, and no handler here does.
  (\<^verbatim>\<open>/initialize-db\<close>, the one route that writes, is not part of this table.)
\<close>

datatype endpoint =
  Transactions_path | Statistics_path | Bar_chart_path | Pie_chart_path | Combined_data_path

definition routes :: "host \<Rightarrow> (endpoint \<times> (db \<Rightarrow> request \<Rightarrow> response)) list" where
  "routes h =
     [(Transactions_path, transactions h),
      (Statistics_path, statistics h),
      (Bar_chart_path, bar_chart h),
      (Pie_chart_path, pie_chart h),
      (Combined_data_path, combined_data h),
      (Transactions_path, transactions_validated h)]"

definition dispatch :: "host \<Rightarrow> db \<Rightarrow> endpoint \<Rightarrow> request \<Rightarrow> response" where
  "dispatch h d p req =
     (case List.find (\<lambda>r. fst r = p) (routes h) of
        None \<Rightarrow> res_send 404 ''Not Found''
      | Some r \<Rightarrow> snd r d req)"

subsection \<open>The month interval in the words of the specification\<close>

text \<open>
  The interval of month \<open>m\<close> of 2023: from the first day of the month to the first
  day of the next month, which for December is 2024-01-01; both at midnight UTC.
\<close>

definition month_begin :: "nat \<Rightarrow> int" where
  "month_begin m = utc_midnight 2023 (int m) 1"

definition month_end :: "nat \<Rightarrow> int" where
  "month_end m = (if m = 12 then utc_midnight 2024 1 1 else utc_midnight 2023 (int m + 1) 1)"

definition in_month :: "nat \<Rightarrow> transaction \<Rightarrow> bool" where
  "in_month m doc =
     (case dateOfSale doc of
        None \<Rightarrow> False
      | Some t \<Rightarrow> month_begin m \<le> t \<and> t < month_end m)"

subsection \<open>Sample hosts and documents\<close>

text \<open>
  Two hosts to run the handlers on: \<open>greenwich\<close> keeps UTC as its local time,
  \<open>bogota\<close> is five hours behind UTC all year. Their other fields are given as far
  as the runs below use them. A plus sign in an address arrives as a blank. Of the
  date texts left to the host, those that have blanks around the numbers of a
  \<^verbatim>\<open>YYYY-M-DD\<close> text are read as Node's engine reads them, as that day in local
  time. Every other text is answered here with \<^verbatim>\<open>Invalid Date\<close>, as the engine
  answers \<^verbatim>\<open>2023-+3-01\<close> and \<^verbatim>\<open>2023-undefined-01\<close>; texts that the engine reads
  in another way (one with a month name, say) are in no run below. No run below
  calls the \<^verbatim>\<open>RegExp\<close> constructor of these two hosts, and none adds prices that
  an addition of doubles would round.
\<close>

definition plus_as_blank :: "string \<Rightarrow> string" where
  "plus_as_blank s = map (\<lambda>c. if c = CHR ''+'' then CHR '' '' else c) s"

definition blank_tolerant :: "int \<Rightarrow> string \<Rightarrow> jsdate" where
  "blank_tolerant offset s =
     (case date_fields (filter (\<lambda>c. c \<noteq> CHR '' '') s) of
        None \<Rightarrow> Invalid_Date
      | Some (y, m, d, two_digits) \<Rightarrow>
          (if legal_date y m d then Time (utc_midnight (int y) (int m) (int d) - offset)
           else Invalid_Date))"

definition greenwich :: host where
  "greenwich =
     \<lparr>tza_of_utc = (\<lambda>t. 0), tza_of_local = (\<lambda>t. 0), parse_other = blank_tolerant 0,
      received_month = plus_as_blank, RegExp_new = (\<lambda>pattern flags. Some (\<lambda>s. True)),
      double_sum = sum_list\<rparr>"

definition bogota :: host where
  "bogota =
     \<lparr>tza_of_utc = (\<lambda>t. - 18000000), tza_of_local = (\<lambda>t. - 18000000),
      parse_other = blank_tolerant (- 18000000), received_month = plus_as_blank,
      RegExp_new = (\<lambda>pattern flags. Some (\<lambda>s. True)), double_sum = sum_list\<rparr>"

text \<open>
  Documents used to run the handlers on concrete stores. The dates are
  2023-03-15T00:00Z, 2023-03-20T10:00Z, 2023-04-02T00:00Z, 2023-12-31T23:59:59.999Z,
  2023-03-10T00:00Z, 2023-12-01T00:00Z, 2023-12-01T12:00Z and 2023-12-15T00:00Z.
\<close>

definition chair :: transaction where
  "chair = \<lparr>ident = 1, title = Some ''Office chair'', description = Some ''Mesh back'',
     price = Some 150, dateOfSale = Some 1678838400000, sold = Some True,
     category = Some ''furniture''\<rparr>"

definition lamp :: transaction where
  "lamp = \<lparr>ident = 2, title = Some ''Desk lamp'', description = Some ''Warm light'',
     price = Some (199 / 2), dateOfSale = Some 1679306400000, sold = Some False,
     category = Some ''lighting''\<rparr>"

definition mug :: transaction where
  "mug = \<lparr>ident = 3, title = Some ''Mug'', description = Some ''Stoneware'',
     price = Some 10, dateOfSale = Some 1680393600000, sold = Some True,
     category = Some ''kitchen''\<rparr>"

definition rug :: transaction where
  "rug = \<lparr>ident = 4, title = Some ''Rug'', description = Some ''Wool'',
     price = Some 900, dateOfSale = Some 1704067199999, sold = Some True,
     category = Some ''furniture''\<rparr>"

definition parcel :: transaction where
  "parcel = \<lparr>ident = 5, title = Some ''Parcel'', description = Some ''Unopened'',
     price = Some 40, dateOfSale = Some 1678406400000, sold = None,
     category = Some ''furniture''\<rparr>"

definition sofa :: transaction where
  "sofa = \<lparr>ident = 6, title = Some ''Sofa'', description = Some ''Three seats'',
     price = Some 950, dateOfSale = Some 1701388800000, sold = Some False,
     category = Some ''furniture''\<rparr>"

definition desk :: transaction where
  "desk = \<lparr>ident = 7, title = Some ''Desk'', description = Some ''Oak'',
     price = Some 320, dateOfSale = Some 1701432000000, sold = Some True,
     category = Some ''furniture''\<rparr>"

definition voucher :: transaction where
  "voucher = \<lparr>ident = 8, title = Some ''Voucher'', description = Some ''Refund'',
     price = Some (- 5), dateOfSale = Some 1702598400000, sold = Some True,
     category = Some ''misc''\<rparr>"

definition month_request :: "nat \<Rightarrow> request" where
  "month_request m = \<lparr>page = None, perPage = None, search = None, month = Some (decimal m)\<rparr>"

section \<open>Properties\<close>

subsection \<open>The month interval\<close>

lemma twelve_cases: "1 \<le> m \<Longrightarrow> m \<le> 12 \<Longrightarrow> m \<in> {1, 2, 3, 4, 5, 6, 7, 8, 9, 10, 11, 12::nat}"
  by (simp add: numeral_eq_Suc) presburger

lemma date_fields_decimal:
  assumes "1 \<le> m" "m \<le> 12"
  shows "date_fields (date_text (Some (decimal m))) = Some (2023, m, 1, 10 \<le> m)"
  using twelve_cases [OF assms] by (elim insertE emptyE; hypsubst; code_simp)

lemma legal_first_day:
  assumes "1 \<le> m" "m \<le> 12"
  shows "legal_date 2023 m 1"
  using twelve_cases [OF assms] by (elim insertE emptyE; hypsubst; code_simp)

lemma month_shift:
  assumes "1 \<le> m" "m \<le> 12"
  shows "utc_midnight 2023 (int m) 1 = month_begin m
     \<and> with_month (month_begin m) (MonthFromTime (month_begin m) + 1) = month_end m"
  using twelve_cases [OF assms] by (elim insertE emptyE; hypsubst; code_simp)

lemma utc_host_times: "utc_host h \<Longrightarrow> LocalTime h t = t \<and> UTC_time h t = t"
  by (simp add: utc_host_def LocalTime_def UTC_time_def)

text \<open>
  On every host the text of a valid month gives two valid dates; which ones depends
  on the zone of the host.
\<close>

lemma Date_parse_valid:
  assumes "1 \<le> m" "m \<le> 12"
  shows "Date_parse h (date_text (Some (decimal m)))
           = Time (if 10 \<le> m then month_begin m else UTC_time h (month_begin m))"
  using month_shift [OF assms] legal_first_day [OF assms]
  by (simp add: Date_parse_def date_fields_decimal [OF assms])

lemma month_interval_times:
  assumes "1 \<le> m" "m \<le> 12"
  shows "\<exists>s e. month_interval h (Some (decimal m)) = (Time s, Time e)"
  by (simp add: month_interval_def Let_def Date_parse_valid [OF assms]
      getMonth_def setMonth_def)

lemma month_interval_valid:
  assumes "utc_host h" "1 \<le> m" "m \<le> 12"
  shows "month_interval h (Some (decimal m)) = (Time (month_begin m), Time (month_end m))"
  using month_shift [OF assms(2,3)]
  by (simp add: month_interval_def Let_def Date_parse_valid [OF assms(2,3)]
      getMonth_def setMonth_def utc_host_times [OF assms(1)])

lemma utc_host_greenwich: "utc_host greenwich"
  by (simp add: utc_host_def greenwich_def)

lemma month_interval_bogota:
  "month_interval bogota (Some (decimal 11)) = (Time 1698796800000, Time 1701475200000)"
  "month_interval bogota (Some (decimal 12)) = (Time 1701388800000, Time 1703980800000)"
  by code_simp+

lemma month_interval_13: "month_interval h (Some ''13'') = (Invalid_Date, Invalid_Date)"
proof -
  have "date_fields (date_text (Some ''13'')) = Some (2023, 13, 1, True)" by code_simp
  moreover have "\<not> legal_date 2023 13 1" by code_simp
  ultimately show ?thesis
    by (simp add: month_interval_def Let_def Date_parse_def getMonth_def setMonth_def)
qed

lemma month_interval_plus:
  "month_interval greenwich (Some ''+3'') = (Invalid_Date, Invalid_Date)"
  "month_interval greenwich (Some '' 3'') = (Time 1677628800000, Time 1680307200000)"
  by code_simp+

lemma date_between_in_month:
  "date_between (Time (month_begin m)) (Time (month_end m)) = in_month m"
  by (rule ext) (simp add: date_between_def in_month_def bson_date_def split: option.splits)

lemma match_stage_in_month:
  "match_stage (Time (month_begin m)) (Time (month_end m)) docs = filter (in_month m) docs"
  by (simp add: match_stage_def date_between_in_month)

text \<open>The first instants of the months of 2023 and of January 2024, as time values.\<close>

lemma month_begin_table:
  "map month_begin [1, 2, 3, 4, 5, 6, 7, 8, 9, 10, 11, 12] =
     [1672531200000, 1675209600000, 1677628800000, 1680307200000, 1682899200000,
      1685577600000, 1688169600000, 1690848000000, 1693526400000, 1696118400000,
      1698796800000, 1701388800000]"
  "month_end 12 = 1704067200000"
  by (simp_all add: month_begin_def month_end_def utc_midnight_def days_from_civil_def
      msPerDay_def)

lemma month_end_next: "m < 12 \<Longrightarrow> month_end m = month_begin (Suc m)"
  by (simp add: month_begin_def month_end_def add.commute)

subsection \<open>The sample documents\<close>

lemma in_month_March_samples:
  "in_month 3 chair" "in_month 3 lamp" "\<not> in_month 3 mug" "\<not> in_month 3 rug" "in_month 3 parcel"
  by (simp_all add: in_month_def month_begin_def month_end_def utc_midnight_def
      days_from_civil_def msPerDay_def chair_def lamp_def mug_def rug_def parcel_def)

lemma in_month_December_samples:
  "\<not> in_month 12 chair" "\<not> in_month 12 mug" "in_month 12 rug" "in_month 12 sofa"
  "in_month 12 voucher"
  by (simp_all add: in_month_def month_begin_def month_end_def utc_midnight_def
      days_from_civil_def msPerDay_def chair_def mug_def rug_def sofa_def voucher_def)


lemma month_of_month_request: "month (month_request m) = Some (decimal m)"
  by (simp add: month_request_def)

lemma dateOfSale_samples:
  "dateOfSale chair = Some 1678838400000" "dateOfSale rug = Some 1704067199999"
  "dateOfSale desk = Some 1701432000000"
  by (simp_all add: chair_def rug_def desk_def)

lemma sold_samples:
  "sold chair = Some True" "sold lamp = Some False" "sold mug = Some True"
  "sold rug = Some True" "sold parcel = None" "sold sofa = Some False"
  "sold desk = Some True"
  by (simp_all add: chair_def lamp_def mug_def rug_def parcel_def sofa_def desk_def)

lemma price_samples:
  "price chair = Some 150" "price lamp = Some (199 / 2)" "price mug = Some 10"
  "price rug = Some 900" "price parcel = Some 40" "price sofa = Some 950"
  "price desk = Some 320" "price voucher = Some (- 5)"
  by (simp_all add: chair_def lamp_def mug_def rug_def parcel_def sofa_def desk_def
      voucher_def)

lemma category_samples:
  "category chair = Some ''furniture''" "category lamp = Some ''lighting''"
  "category mug = Some ''kitchen''" "category rug = Some ''furniture''"
  "category parcel = Some ''furniture''" "category sofa = Some ''furniture''"
  "category desk = Some ''furniture''"
  by (simp_all add: chair_def lamp_def mug_def rug_def parcel_def sofa_def desk_def)

lemma March_selection:
  "filter (in_month 3) [chair, lamp, parcel, mug] = [chair, lamp, parcel]"
  "filter (in_month 3) [chair, lamp, mug] = [chair, lamp]"
  "filter (in_month 3) [parcel] = [parcel]"
  "filter (in_month 3) [chair, mug] = [chair]"
  by (simp_all add: in_month_March_samples)


text \<open>What the date filter of \<open>bogota\<close> lets through.\<close>

lemma bogota_selection:
  "match_stage (Time 1701388800000) (Time 1703980800000) [rug] = []"
  "match_stage (Time 1698796800000) (Time 1701475200000) [desk] = [desk]"
  "match_stage (Time 1677628800000) (Time 1680307200000) [chair] = [chair]"
  by (simp_all add: match_stage_def date_between_def bson_date_def dateOfSale_samples)

subsection \<open>Statistics\<close>

lemma sum_sold_one:
  "sum_list (map sold_one docs) = length (filter (\<lambda>doc. sold doc = Some True) docs)"
  by (induction docs) (auto simp: sold_one_def)

lemma matches_unsold:
  "matches [Cond (Sold_is False), Cond (DateOfSale_range a b)] doc
     = (sold doc = Some False \<and> date_between a b doc)"
  by (simp add: matches_def)

text \<open>On every host: the answer is computed from the documents the date filter selects.\<close>

lemma statistics_between:
  assumes "month_interval h (month req) = (Time s, Time e)"
  shows "statistics h (Up docs) req =
     res_json (Statistics
       (if match_stage (Time s) (Time e) docs = [] then 0
        else double_sum h (List.map_filter price (match_stage (Time s) (Time e) docs)))
       (length (filter (\<lambda>doc. sold doc = Some True) (match_stage (Time s) (Time e) docs)))
       (length (filter (\<lambda>doc. sold doc = Some False) (match_stage (Time s) (Time e) docs))))"
proof -
  define sel where "sel = match_stage (Time s) (Time e) docs"
  have agg: "Transaction_aggregate (Up docs) (Time s) (Time e) (group_totals h)
        = Inr (group_totals h sel)"
    by (simp add: Transaction_aggregate_def sel_def)
  have cnt: "Transaction_countDocuments (Up docs)
       [Cond (Sold_is False), Cond (DateOfSale_range (Time s) (Time e))]
       = Inr (length (filter (\<lambda>doc. sold doc = Some False) sel))"
  proof -
    have "filter (matches [Cond (Sold_is False), Cond (DateOfSale_range (Time s) (Time e))]) docs
          = filter (\<lambda>doc. sold doc = Some False) sel"
      by (simp add: sel_def match_stage_def matches_unsold conj_commute cong: filter_cong)
    then show ?thesis
      by (simp add: Transaction_countDocuments_def cast_conditions_def)
  qed
  have tot: "(case group_totals h sel of [] \<Rightarrow> 0 | g # gs \<Rightarrow> fst g)
       = (if sel = [] then 0 else double_sum h (List.map_filter price sel))"
    by (simp add: group_totals_def)
  have sld: "(case group_totals h sel of [] \<Rightarrow> 0 | g # gs \<Rightarrow> snd g)
       = length (filter (\<lambda>doc. sold doc = Some True) sel)"
    by (cases "sel = []") (simp_all add: group_totals_def sum_sold_one)
  show ?thesis
    unfolding statistics_def sel_def [symmetric]
    by (simp add: assms agg cnt tot sld)
qed

lemma statistics_valid:
  assumes "utc_host h" "1 \<le> m" "m \<le> 12" "month req = Some (decimal m)"
  shows "statistics h (Up docs) req =
     res_json (Statistics
       (if filter (in_month m) docs = [] then 0
        else double_sum h (List.map_filter price (filter (in_month m) docs)))
       (length (filter (\<lambda>doc. sold doc = Some True) (filter (in_month m) docs)))
       (length (filter (\<lambda>doc. sold doc = Some False) (filter (in_month m) docs))))"
proof -
  have "month_interval h (month req) = (Time (month_begin m), Time (month_end m))"
    using month_interval_valid [OF assms(1-3)] assms(4) by simp
  from statistics_between [OF this, of docs] show ?thesis
    by (simp only: match_stage_in_month)
qed

lemma double_sum_samples: "double_sum greenwich = sum_list" "double_sum bogota = sum_list"
  by (simp_all add: greenwich_def bogota_def)




text \<open>
  The two counts come from two queries: \<^verbatim>\<open>soldItems\<close> adds 1 for a document whose
  flag is true, \<^verbatim>\<open>unsoldItems\<close> counts the documents whose flag is false. A document
  without a flag is in neither.
\<close>

lemma flagged_split:
  "length (filter (\<lambda>doc. sold doc = Some True) docs)
     + length (filter (\<lambda>doc. sold doc = Some False) docs)
     = length (filter (\<lambda>doc. sold doc \<noteq> None) docs)"
proof (induction docs)
  case Nil
  show ?case by simp
next
  case (Cons a docs)
  have "sold a = None \<or> sold a = Some True \<or> sold a = Some False"
    by (cases "sold a") auto
  with Cons show ?case by auto
qed

text \<open>
  Claim C4 as stated fails twice. On a host in UTC, with one document of March that
  has no \<^verbatim>\<open>sold\<close> flag in the store, both counts are 0 while one document is in
  the interval. On a host five hours behind UTC, a sold document dated 2023-12-31 is
  in the interval of December and in neither count.
\<close>

theorem sold_plus_unsold_counterexample:
  "statistics greenwich (Up [parcel]) (month_request 3) = res_json (Statistics 40 0 0)
   \<and> length (filter (in_month 3) [parcel]) = 1
   \<and> statistics bogota (Up [rug]) (month_request 12) = res_json (Statistics 0 0 0)
   \<and> length (filter (in_month 12) [rug]) = 1"
proof -
  have valid: "utc_host greenwich" "(1::nat) \<le> 3" "(3::nat) \<le> 12"
      "month (month_request 3) = Some (decimal 3)"
    by (simp_all add: month_of_month_request utc_host_greenwich)
  have a: "statistics greenwich (Up [parcel]) (month_request 3) = res_json (Statistics 40 0 0)"
    using statistics_valid [OF valid, of "[parcel]"]
    by (simp add: in_month_March_samples double_sum_samples
        sold_samples price_samples)
  have "month_interval bogota (month (month_request 12))
      = (Time 1701388800000, Time 1703980800000)"
    by (simp add: month_of_month_request month_interval_bogota)
  from statistics_between [OF this, of "[rug]"]
  have b: "statistics bogota (Up [rug]) (month_request 12) = res_json (Statistics 0 0 0)"
    by (simp add: bogota_selection)
  from a b show ?thesis
    by (simp add: in_month_March_samples in_month_December_samples)
qed

text \<open>
  Claim C4, amended. On a host whose local time is UTC, for a valid month,
  \<^verbatim>\<open>soldItems\<close> and \<^verbatim>\<open>unsoldItems\<close> of \<^verbatim>\<open>GET /statistics\<close> sum to the number of
  documents in the month interval that carry a \<^verbatim>\<open>sold\<close> flag; when every document
  in the interval carries one, that is the number of documents in the interval.
\<close>

theorem sold_plus_unsold:
  assumes "utc_host h" "1 \<le> m" "m \<le> 12" "month req = Some (decimal m)"
  shows "\<exists>amount s u. statistics h (Up docs) req = res_json (Statistics amount s u)
     \<and> s + u = length (filter (\<lambda>doc. sold doc \<noteq> None) (filter (in_month m) docs))
     \<and> ((\<forall>doc\<in>set docs. in_month m doc \<longrightarrow> sold doc \<noteq> None)
          \<longrightarrow> s + u = length (filter (in_month m) docs))"
proof -
  define sel where "sel = filter (in_month m) docs"
  have flagged: "filter (\<lambda>doc. sold doc \<noteq> None) sel = sel"
    if "\<forall>doc\<in>set docs. in_month m doc \<longrightarrow> sold doc \<noteq> None"
    unfolding sel_def filter_filter by (rule filter_cong) (use that in auto)
  show ?thesis
    using statistics_valid [OF assms, of docs] flagged_split [of sel] flagged
    unfolding sel_def by (intro exI conjI impI) (assumption, simp_all)
qed

theorem sold_plus_unsold_witness:
  "(\<exists>amount s u. statistics greenwich (Up [chair, lamp, parcel, mug]) (month_request 3)
        = res_json (Statistics amount s u) \<and> s + u = 2)
   \<and> (\<exists>amount s u. statistics greenwich (Up [chair, lamp, mug]) (month_request 3)
        = res_json (Statistics amount s u) \<and> s + u = 2
          \<and> length (filter (in_month 3) [chair, lamp, mug]) = 2)"
proof -
  have valid: "utc_host greenwich" "(1::nat) \<le> 3" "(3::nat) \<le> 12"
      "month (month_request 3) = Some (decimal 3)"
    by (simp_all add: month_of_month_request utc_host_greenwich)
  from sold_plus_unsold [OF valid, of "[chair, lamp, parcel, mug]"]
  obtain amount s u where
    resp: "statistics greenwich (Up [chair, lamp, parcel, mug]) (month_request 3)
        = res_json (Statistics amount s u)"
    and flagged: "s + u = length (filter (\<lambda>doc. sold doc \<noteq> None)
        (filter (in_month 3) [chair, lamp, parcel, mug]))"
    by blast
  from flagged have "s + u = 2"
    by (simp add: in_month_March_samples sold_samples del: not_None_eq)
  with resp
  have a: "\<exists>amount s u. statistics greenwich (Up [chair, lamp, parcel, mug]) (month_request 3)
        = res_json (Statistics amount s u) \<and> s + u = 2"
    by blast
  have flags: "\<forall>doc\<in>set [chair, lamp, mug]. in_month 3 doc \<longrightarrow> sold doc \<noteq> None"
    by (simp add: sold_samples del: not_None_eq)
  have two: "length (filter (in_month 3) [chair, lamp, mug]) = 2"
    by (simp add: in_month_March_samples)
  from sold_plus_unsold [OF valid, of "[chair, lamp, mug]"] flags
  have "\<exists>amount s u. statistics greenwich (Up [chair, lamp, mug]) (month_request 3)
        = res_json (Statistics amount s u)
          \<and> s + u = length (filter (in_month 3) [chair, lamp, mug])"
    by blast
  with two
  have b: "\<exists>amount s u. statistics greenwich (Up [chair, lamp, mug]) (month_request 3)
        = res_json (Statistics amount s u) \<and> s + u = 2
          \<and> length (filter (in_month 3) [chair, lamp, mug]) = 2"
    by simp
  from a b show ?thesis by (rule conjI)
qed

subsection \<open>Bar chart\<close>

lemma bar_chart_between:
  assumes "month_interval h (month req) = (Time s, Time e)"
  shows "bar_chart h (Up docs) req
           = res_json (Buckets (bucket_stage (match_stage (Time s) (Time e) docs)))"
  unfolding bar_chart_def by (simp add: assms Transaction_aggregate_def)

lemma bar_chart_valid:
  assumes "utc_host h" "1 \<le> m" "m \<le> 12" "month req = Some (decimal m)"
  shows "bar_chart h (Up docs) req = res_json (Buckets (bucket_stage (filter (in_month m) docs)))"
proof -
  have "month_interval h (month req) = (Time (month_begin m), Time (month_end m))"
    using month_interval_valid [OF assms(1-3)] assms(4) by simp
  from bar_chart_between [OF this, of docs] show ?thesis
    by (simp only: match_stage_in_month)
qed

lemma bucket_of_samples:
  "bucket_of chair = Lower 100" "bucket_of lamp = Lower 0" "bucket_of parcel = Lower 0"
  "bucket_of rug = Lower 900" "bucket_of sofa = Lower 900"
  "bucket_of voucher = Label ''901-above''"
  by (simp_all add: bucket_of_def boundaries_def price_samples)

text \<open>
  Claim C5 at a failing input, on a host in UTC. A document of December priced 950
  is reported under the lower boundary 900, in the bucket that the boundaries
  900 and \<^verbatim>\<open>Infinity\<close> make, and not under the name \<^verbatim>\<open>901-above\<close>; what comes under
  that name is a document with a negative price.
\<close>

theorem bar_chart_overflow_label:
  "bar_chart greenwich (Up [sofa]) (month_request 12) = res_json (Buckets [(Lower 900, 1)])
   \<and> bar_chart greenwich (Up [voucher]) (month_request 12)
       = res_json (Buckets [(Label ''901-above'', 1)])"
proof -
  have valid: "utc_host greenwich" "(1::nat) \<le> 12" "(12::nat) \<le> 12"
      "month (month_request 12) = Some (decimal 12)"
    by (simp_all add: month_of_month_request utc_host_greenwich)
  have "bucket_stage [sofa] = [(Lower 900, 1)]"
    "bucket_stage [voucher] = [(Label ''901-above'', 1)]"
    by (simp_all add: bucket_stage_def bucket_keys_def boundaries_def bucket_count_def
        bucket_of_samples)
  then show ?thesis
    by (simp add: bar_chart_valid [OF valid] in_month_December_samples)
qed

subsection \<open>Pie chart\<close>



lemma pie_chart_between:
  assumes "month_interval h (month req) = (Time s, Time e)"
  shows "pie_chart h (Up docs) req
           = res_json (Categories (category_stage (match_stage (Time s) (Time e) docs)))"
  unfolding pie_chart_def by (simp add: assms Transaction_aggregate_def)

lemma pie_chart_valid:
  assumes "utc_host h" "1 \<le> m" "m \<le> 12" "month req = Some (decimal m)"
  shows "pie_chart h (Up docs) req
           = res_json (Categories (category_stage (filter (in_month m) docs)))"
proof -
  have "month_interval h (month req) = (Time (month_begin m), Time (month_end m))"
    using month_interval_valid [OF assms(1-3)] assms(4) by simp
  from pie_chart_between [OF this, of docs] show ?thesis
    by (simp only: match_stage_in_month)
qed





subsection \<open>The combined report\<close>

lemma interpolate_idem: "interpolate (Some (interpolate p)) = interpolate p"
  by (simp add: interpolate_def)

lemma month_interval_sub:
  assumes "received_month h (interpolate (month req)) = interpolate (month req)"
  shows "month_interval h (month (sub_request h req)) = month_interval h (month req)"
  by (simp add: month_interval_def date_text_def sub_request_def assms interpolate_idem)

lemma sub_request_reports:
  assumes "received_month h (interpolate (month req)) = interpolate (month req)"
  shows "statistics h d (sub_request h req) = statistics h d req"
    "bar_chart h d (sub_request h req) = bar_chart h d req"
    "pie_chart h d (sub_request h req) = pie_chart h d req"
  by (simp_all add: statistics_def bar_chart_def pie_chart_def month_interval_sub [OF assms])

lemma status_statistics:
  "status (statistics h d req) = 200 \<or> status (statistics h d req) = 500"
  by (simp add: statistics_def res_json_def res_send_def split: prod.splits sum.splits)

lemma status_bar_chart: "status (bar_chart h d req) = 200 \<or> status (bar_chart h d req) = 500"
  by (simp add: bar_chart_def res_json_def res_send_def split: prod.splits sum.splits)

lemma status_pie_chart: "status (pie_chart h d req) = 200 \<or> status (pie_chart h d req) = 500"
  by (simp add: pie_chart_def res_json_def res_send_def split: prod.splits sum.splits)

lemma axios_get_report:
  assumes "status r = 200 \<or> status r = 500"
  shows "axios_get r = (if status r = 200 then Inr (body r) else Inl AxiosError)"
  using assms by (auto simp: axios_get_def)

lemma statistics_Down: "statistics h Down req = res_send 500 ''Error fetching statistics''"
  by (simp add: statistics_def Transaction_aggregate_def split: prod.splits)

lemma statistics_invalid:
  assumes "month_interval h (month req) = (Invalid_Date, Invalid_Date)"
  shows "statistics h d req = res_send 500 ''Error fetching statistics''"
  by (simp add: statistics_def assms Transaction_aggregate_def
      Transaction_countDocuments_def cast_conditions_def split: db.splits)

lemma received_samples:
  "received_month greenwich ''+3'' = '' 3''" "received_month greenwich ''3'' = ''3''"
  "received_month greenwich ''13'' = ''13''"
  by (simp_all add: greenwich_def plus_as_blank_def)

text \<open>
  Claim C7 as stated fails. The month text \<^verbatim>\<open>+3\<close> is written into the three
  addresses as it is and arrives as a blank followed by 3, which the engine reads
  as March: \<^verbatim>\<open>/combined-data\<close> answers 200 with the data of March, while
  \<^verbatim>\<open>/statistics\<close> called with the month \<^verbatim>\<open>+3\<close> itself answers 500.
\<close>

theorem combined_data_merges_counterexample:
  "combined_data greenwich (Up [chair])
       \<lparr>page = None, perPage = None, search = None, month = Some ''+3''\<rparr>
     = res_json (Combined (Statistics 150 1 0) (Buckets [(Lower 100, 1)])
         (Categories [(Some ''furniture'', 1)]))
   \<and> statistics greenwich (Up [chair])
       \<lparr>page = None, perPage = None, search = None, month = Some ''+3''\<rparr>
     = res_send 500 ''Error fetching statistics''"
proof -
  let ?req = "\<lparr>page = None, perPage = None, search = None, month = Some ''+3''\<rparr>"
  let ?sub = "\<lparr>page = None, perPage = None, search = None, month = Some '' 3''\<rparr>"
  have sub: "sub_request greenwich ?req = ?sub"
    by (simp add: sub_request_def interpolate_def received_samples)
  have iv: "month_interval greenwich (month ?sub) = (Time 1677628800000, Time 1680307200000)"
    by (simp add: month_interval_plus)
  have s: "statistics greenwich (Up [chair]) ?sub = res_json (Statistics 150 1 0)"
    using statistics_between [OF iv, of "[chair]"]
    by (simp add: bogota_selection double_sum_samples price_samples
        sold_samples)
  have b: "bar_chart greenwich (Up [chair]) ?sub = res_json (Buckets [(Lower 100, 1)])"
    using bar_chart_between [OF iv, of "[chair]"]
    by (simp add: bogota_selection bucket_stage_def bucket_keys_def boundaries_def
        bucket_count_def bucket_of_samples)
  have p: "pie_chart greenwich (Up [chair]) ?sub
      = res_json (Categories [(Some ''furniture'', 1)])"
    using pie_chart_between [OF iv, of "[chair]"]
    by (simp add: bogota_selection category_stage_def category_samples)
  have one: "combined_data greenwich (Up [chair]) ?req
     = res_json (Combined (Statistics 150 1 0) (Buckets [(Lower 100, 1)])
         (Categories [(Some ''furniture'', 1)]))"
    by (simp add: combined_data_def sub s b p axios_get_def res_json_def)
  have two: "statistics greenwich (Up [chair]) ?req
     = res_send 500 ''Error fetching statistics''"
    by (rule statistics_invalid) (simp add: month_interval_plus)
  from one two show ?thesis by (rule conjI)
qed

text \<open>
  Claim C7, amended. For every month value whose text reaches the sub-requests as
  it was written into their addresses (a text without characters that are reserved
  in an address, such as a decimal numeral; a missing month is written as the word
  \<^verbatim>\<open>undefined\<close>), \<^verbatim>\<open>GET /combined-data\<close> answers 200 with the object made of the
  bodies that \<^verbatim>\<open>/statistics\<close>, \<^verbatim>\<open>/bar-chart\<close> and \<^verbatim>\<open>/pie-chart\<close> give for the same
  month when all three succeed, and answers 500 with its fixed text when any of the
  three does not succeed.
\<close>

theorem combined_data_merges:
  assumes "received_month h (interpolate (month req)) = interpolate (month req)"
  shows "combined_data h d req =
     (if status (statistics h d req) = 200 \<and> status (bar_chart h d req) = 200
         \<and> status (pie_chart h d req) = 200
      then res_json (Combined (body (statistics h d req)) (body (bar_chart h d req))
             (body (pie_chart h d req)))
      else res_send 500 ''Error fetching combined data'')"
  by (simp add: combined_data_def sub_request_reports [OF assms]
      axios_get_report [OF status_statistics] axios_get_report [OF status_bar_chart]
      axios_get_report [OF status_pie_chart])

theorem combined_data_merges_witness:
  "combined_data greenwich (Up [chair, mug]) (month_request 3)
     = res_json (Combined (Statistics 150 1 0) (Buckets [(Lower 100, 1)])
         (Categories [(Some ''furniture'', 1)]))
   \<and> combined_data greenwich Down (month_request 3)
     = res_send 500 ''Error fetching combined data''
   \<and> combined_data greenwich (Up [chair, mug])
        \<lparr>page = None, perPage = None, search = None, month = Some ''13''\<rparr>
     = res_send 500 ''Error fetching combined data''"
proof -
  have valid: "utc_host greenwich" "(1::nat) \<le> 3" "(3::nat) \<le> 12"
      "month (month_request 3) = Some (decimal 3)"
    by (simp_all add: month_of_month_request utc_host_greenwich)
  have three: "decimal 3 = ''3''"
    by code_simp
  have arrives: "received_month greenwich (interpolate (month (month_request 3)))
      = interpolate (month (month_request 3))"
    by (simp add: month_of_month_request interpolate_def three received_samples)
  have arrives13: "received_month greenwich (interpolate (month
        \<lparr>page = None, perPage = None, search = None, month = Some ''13''\<rparr>))
      = interpolate (month \<lparr>page = None, perPage = None, search = None, month = Some ''13''\<rparr>)"
    by (simp add: interpolate_def received_samples)
  have s: "statistics greenwich (Up [chair, mug]) (month_request 3)
      = res_json (Statistics 150 1 0)"
    unfolding statistics_valid [OF valid] March_selection
    by (simp add: double_sum_samples price_samples sold_samples)
  have b: "bar_chart greenwich (Up [chair, mug]) (month_request 3)
      = res_json (Buckets [(Lower 100, 1)])"
    unfolding bar_chart_valid [OF valid] March_selection
    by (simp add: bucket_stage_def bucket_keys_def boundaries_def bucket_count_def
        bucket_of_samples)
  have p: "pie_chart greenwich (Up [chair, mug]) (month_request 3)
      = res_json (Categories [(Some ''furniture'', 1)])"
    unfolding pie_chart_valid [OF valid] March_selection
    by (simp add: category_stage_def category_samples)
  have one: "combined_data greenwich (Up [chair, mug]) (month_request 3)
     = res_json (Combined (Statistics 150 1 0) (Buckets [(Lower 100, 1)])
         (Categories [(Some ''furniture'', 1)]))"
    using combined_data_merges [OF arrives, of "Up [chair, mug]"]
    by (simp add: s b p res_json_def)
  have two: "combined_data greenwich Down (month_request 3)
      = res_send 500 ''Error fetching combined data''"
    using combined_data_merges [OF arrives, of Down]
    by (simp add: statistics_Down res_send_def)
  have "statistics greenwich (Up [chair, mug])
        \<lparr>page = None, perPage = None, search = None, month = Some ''13''\<rparr>
      = res_send 500 ''Error fetching statistics''"
    by (rule statistics_invalid) (simp add: month_interval_13)
  with combined_data_merges [OF arrives13, of "Up [chair, mug]"]
  have three': "combined_data greenwich (Up [chair, mug])
        \<lparr>page = None, perPage = None, search = None, month = Some ''13''\<rparr>
     = res_send 500 ''Error fetching combined data''"
    by (simp add: res_send_def)
  from one two three' show ?thesis by simp
qed

subsection \<open>The month filter of every endpoint\<close>





subsection \<open>The list endpoint\<close>

text \<open>
  The conditions of the list endpoint never pass casting: one branch of their
  \<^verbatim>\<open>$or\<close> puts \<^verbatim>\<open>$regex\<close> on the Number path \<^verbatim>\<open>price\<close>. The query is rejected,
  the \<^verbatim>\<open>catch\<close> block answers, and no request to \<^verbatim>\<open>/transactions\<close> ever gets a
  page of documents.
\<close>

lemma cast_transactions_conditions:
  "\<not> cast_conditions (transactions_conditions regex text a b)"
  by (simp add: cast_conditions_def transactions_conditions_def)

lemma transactions_fails:
  "transactions h d req = res_send 500 ''Error fetching transactions''"
  by (simp add: transactions_def Let_def Transaction_find_def cast_transactions_conditions
      split: option.splits prod.splits)

lemma dispatch_transactions:
  "dispatch h d Transactions_path req = transactions h d req"
  by (simp add: dispatch_def routes_def)

lemma dispatch_reports:
  "dispatch h d Statistics_path req = statistics h d req"
  "dispatch h d Bar_chart_path req = bar_chart h d req"
  "dispatch h d Pie_chart_path req = pie_chart h d req"
  "dispatch h d Combined_data_path req = combined_data h d req"
  by (simp_all add: dispatch_def routes_def)

lemma month_rejected_13: "month_rejected (Some ''13'')"
  by code_simp

text \<open>
  Claim C1 at the failing inputs \<^verbatim>\<open>month=13\<close> and no \<^verbatim>\<open>month\<close>. Routing gives
  the request to the handler registered first, which has no check of the month and
  answers 500; the date it builds is invalid. The handler registered last would have
  answered 400 with \<^verbatim>\<open>{ error: "Invalid month parameter" }\<close>, and is never reached.
\<close>

theorem transactions_month_13:
  "dispatch h d Transactions_path
       \<lparr>page = None, perPage = None, search = None, month = Some ''13''\<rparr>
     = res_send 500 ''Error fetching transactions''
   \<and> dispatch h d Transactions_path
       \<lparr>page = None, perPage = None, search = None, month = None\<rparr>
     = res_send 500 ''Error fetching transactions''
   \<and> month_interval h (Some ''13'') = (Invalid_Date, Invalid_Date)
   \<and> transactions_validated h d
       \<lparr>page = None, perPage = None, search = None, month = Some ''13''\<rparr>
     = \<lparr>status = 400, body = Error_json ''Invalid month parameter''\<rparr>"
  by (simp add: dispatch_transactions transactions_fails transactions_validated_def
      month_rejected_13 month_interval_13)

text \<open>
  Claim C8 at a failing input: March, search text \<^verbatim>\<open>chair\<close>, a store that holds a
  document of March titled \<^verbatim>\<open>Office chair\<close>. The answer is 500, not that document.
\<close>

theorem transactions_search_fails:
  "dispatch h (Up [chair, lamp]) Transactions_path
       \<lparr>page = None, perPage = None, search = Some ''chair'', month = Some ''3''\<rparr>
     = res_send 500 ''Error fetching transactions''
   \<and> \<not> cast_atom (Price_regex ''chair'')"
  by (simp add: dispatch_transactions transactions_fails)

text \<open>
  Claim C9 at a failing input: the three requests for pages (1, 10), (2, 10) and
  (1, 20) of March are all answered 500, so there are no pages to compare.
\<close>

theorem transactions_pages_fail:
  "dispatch h (Up [chair, lamp, parcel]) Transactions_path
       \<lparr>page = Some 1, perPage = Some 10, search = None, month = Some ''3''\<rparr>
     = res_send 500 ''Error fetching transactions''
   \<and> dispatch h (Up [chair, lamp, parcel]) Transactions_path
       \<lparr>page = Some 2, perPage = Some 10, search = None, month = Some ''3''\<rparr>
     = res_send 500 ''Error fetching transactions''
   \<and> dispatch h (Up [chair, lamp, parcel]) Transactions_path
       \<lparr>page = Some 1, perPage = Some 20, search = None, month = Some ''3''\<rparr>
     = res_send 500 ''Error fetching transactions''"
  by (simp add: dispatch_transactions transactions_fails)

text \<open>
  Claim C10 at a failing input: March, no search text, a store with two documents of
  March. The answer is 500, not the two documents.
\<close>

theorem transactions_without_search_fails:
  "dispatch h (Up [chair, lamp, mug]) Transactions_path
       \<lparr>page = None, perPage = None, search = None, month = Some ''3''\<rparr>
     = res_send 500 ''Error fetching transactions''
   \<and> \<not> cast_atom (Price_regex [])"
  by (simp add: dispatch_transactions transactions_fails)

end
